theory Spec2Isabelle
  imports
    Main
    "HOL-Library.AList"
    "HOL-Library.FSet"
    "HOL-Library.Char_ord"
    "HOL-Library.List_Lexorder"
begin

section \<open>Data model of \<^verbatim>\<open>DataProcessor\<close> (src/data\_storage.py)\<close>

text \<open>
  Cell values are \<^verbatim>\<open>None\<close>, integers, strings, and the pandas \<^verbatim>\<open>Timestamp\<close> objects
  that \<^verbatim>\<open>_clean_csv_data\<close> leaves in the first column whose name contains \<^verbatim>\<open>date\<close>
  (lines 95--98: \<^verbatim>\<open>pd.to_datetime\<close>; \<^verbatim>\<open>to_dict('records')\<close> at line 126 keeps them).
  A \<^verbatim>\<open>Timestamp\<close> is carried by its text. Floating-point cells are not modelled.

  A Python \<^verbatim>\<open>dict\<close> is an association list in insertion order. \<open>AList.update\<close> is
  Python's \<^verbatim>\<open>d[k] = v\<close>: an existing key keeps its position, a new key is appended.
  \<open>map_of\<close> is the lookup. A Python \<^verbatim>\<open>set\<close> of strings is a finite set.
\<close>

datatype pyval = VNone | VInt int | VStr string | VTimestamp string

text \<open>
  The cells \<^verbatim>\<open>json.dump\<close> can write: everything but a \<^verbatim>\<open>Timestamp\<close>, on which it raises
  \<^verbatim>\<open>TypeError: Object of type Timestamp is not JSON serializable\<close>.
\<close>

fun json_cell :: "pyval \<Rightarrow> bool" where
  "json_cell (VTimestamp t) = False"
| "json_cell v = True"

type_synonym ('k, 'v) dict = "('k \<times> 'v) list"

type_synonym row = "(string, pyval) dict"

type_synonym datasets = "(string, row list) dict"

type_synonym statistics = "(string, (string, pyval) dict) dict"

text \<open>\<^verbatim>\<open>d.get(k, default)\<close>\<close>

definition dict_get :: "('k, 'v) dict \<Rightarrow> 'k \<Rightarrow> 'v \<Rightarrow> 'v" where
  "dict_get d k dflt = (case map_of d k of None \<Rightarrow> dflt | Some v \<Rightarrow> v)"

text \<open>\<^verbatim>\<open>d.update({k1: v1, k2: v2, ...})\<close>: the keys are stored one after the other.\<close>

fun dict_update :: "('k, 'v) dict \<Rightarrow> ('k \<times> 'v) list \<Rightarrow> ('k, 'v) dict" where
  "dict_update d [] = d"
| "dict_update d ((k, v) # kvs) = dict_update (AList.update k v d) kvs"

text \<open>
  The fields of the processor object that the operations read and write
  (\<^verbatim>\<open>__init__\<close>, lines 10--21). \<^verbatim>\<open>column_mappings\<close> is a constant.
\<close>

record app_state =
  data :: datasets
  excluded_components :: "string fset"
  stats :: statistics
  processed_files :: "string fset"

definition column_mappings :: "(string, string) dict" where
  "column_mappings = [(''User Full Name *Anonymized'', ''User_ID'')]"

definition default_excluded :: "string fset" where
  "default_excluded = {|''System'', ''Folder''|}"

text \<open>
  The state right after the field initialisers of \<^verbatim>\<open>__init__\<close>, before
  \<^verbatim>\<open>_load_state\<close> runs.
\<close>

definition init_fields :: app_state where
  "init_fields = \<lparr>data = [], excluded_components = default_excluded, stats = [],
     processed_files = {||}\<rparr>"

subsection \<open>Errors\<close>

text \<open>
  The Python exceptions that the operations can meet, and the \<^verbatim>\<open>Exception\<close> each
  operation wraps them in (\<^verbatim>\<open>raise Exception(f"... failed: {str(e)}")\<close>).
  \<open>NotModelled\<close> is no exception: it marks a call to pandas on tables that the model
  of pandas below does not cover, and nothing is claimed about such a call.
\<close>

datatype pyerr =
    KeyError string
  | TypeError
  | ValueError string
  | MissingRequiredDatasets "string fset"
  | IOError
  | NotModelled string

datatype error =
    RemovingFailed pyerr
  | SavingRecordsFailed pyerr
  | MergeFailed pyerr
  | ReshapeFailed pyerr

subsection \<open>The files under the backup directory and the clock\<close>

text \<open>
  \<^verbatim>\<open>datetime.now()\<close> is a parameter of every operation that reads the clock: the reading
  in ISO format (\<^verbatim>\<open>isoformat()\<close>) and in the format of the export file names
  (\<^verbatim>\<open>strftime("%Y%m%d_%H%M%S")\<close>). All readings within one call are the same instant.
\<close>

record timestamp =
  isoformat :: string
  strftime :: string

text \<open>
  The snapshot file \<^verbatim>\<open>application_state.json\<close> as \<^verbatim>\<open>json.load\<close> returns it. Each key
  may be absent, which is what \<^verbatim>\<open>state.get(key, default)\<close> in \<^verbatim>\<open>_load_state\<close> provides
  for. \<^verbatim>\<open>json.dump\<close> followed by \<^verbatim>\<open>json.load\<close> is taken to return the dumped value.
\<close>

record snapshot =
  snap_stats :: "statistics option"
  snap_processed_files :: "string list option"
  snap_excluded_components :: "string list option"
  snap_last_updated :: "string option"
  snap_data :: "datasets option"

text \<open>An export artifact \<^verbatim>\<open>processed_data_<timestamp>.json\<close> (lines 226--237).\<close>

record metadata =
  meta_processed_at :: string
  meta_file_statistics :: statistics
  meta_processed_files :: "string list"
  meta_excluded_components :: "string list"
  meta_column_mappings :: "(string, string) dict"

record export_artifact =
  exp_metadata :: metadata
  exp_data :: datasets

text \<open>
  A file is missing, present but not a complete JSON text (\<^verbatim>\<open>json.load\<close> raises on it),
  or holds a value.
\<close>

datatype 'a file_content = Missing | Corrupt | Holds 'a

text \<open>
  The files the processor touches: the snapshot, the export artifacts by the time stamp
  in their name, and whether opening a file for writing succeeds.
\<close>

record world =
  state_file :: "snapshot file_content"
  exports :: "(string, export_artifact file_content) dict"
  writable :: bool

text \<open>\<^verbatim>\<open>list(s)\<close> of a set: some enumeration of its elements, here the sorted one.\<close>

definition list_of_set :: "string fset \<Rightarrow> string list" where
  "list_of_set s = sorted_list_of_fset s"

subsection \<open>\<^verbatim>\<open>_save_state\<close>, \<^verbatim>\<open>_initialize_new_state\<close>, \<^verbatim>\<open>_load_state\<close>, \<^verbatim>\<open>clear_state\<close>\<close>

text \<open>
  Lines 47--61: the dictionary \<^verbatim>\<open>state\<close>, and its writing. An exception while writing
  is caught and printed, so the call never fails.
\<close>

definition snapshot_of :: "timestamp \<Rightarrow> app_state \<Rightarrow> snapshot" where
  "snapshot_of now s =
     \<lparr>snap_stats = Some (stats s),
      snap_processed_files = Some (list_of_set (processed_files s)),
      snap_excluded_components = Some (list_of_set (excluded_components s)),
      snap_last_updated = Some (isoformat now),
      snap_data = Some (data s)\<rparr>"

text \<open>
  Whether \<^verbatim>\<open>json.dump\<close> can write the statistics and the datasets of a state. The file
  names and the component names are strings.
\<close>

definition json_serialisable :: "app_state \<Rightarrow> bool" where
  "json_serialisable s =
     (list_all (\<lambda>(name, st). list_all (\<lambda>(key, v). json_cell v) st) (stats s) \<and>
      list_all (\<lambda>(name, records). list_all (\<lambda>r. list_all (\<lambda>(key, v). json_cell v) r) records)
        (data s))"

text \<open>
  \<^verbatim>\<open>open('w')\<close> empties the file before \<^verbatim>\<open>json.dump\<close> writes into it piece by piece, so
  a \<^verbatim>\<open>json.dump\<close> that raises leaves an incomplete text behind. When the file cannot be
  opened nothing changes. Either exception is caught and printed.
\<close>

definition save_state :: "timestamp \<Rightarrow> app_state \<Rightarrow> world \<Rightarrow> world" where
  "save_state now s w =
     (if \<not> writable w then w
      else if json_serialisable s then w\<lparr>state_file := Holds (snapshot_of now s)\<rparr>
      else w\<lparr>state_file := Corrupt\<rparr>)"

text \<open>Lines 41--45.\<close>

definition initialize_new_state :: "timestamp \<Rightarrow> app_state \<Rightarrow> world \<Rightarrow> app_state \<times> world" where
  "initialize_new_state now s w =
     (let s' = s\<lparr>data := [], stats := [], processed_files := {||}\<rparr>
      in (s', save_state now s' w))"

text \<open>
  Lines 26--39. A missing file leaves the fields as they are; an unreadable one falls
  back to \<^verbatim>\<open>_initialize_new_state\<close>.
\<close>

definition load_state :: "timestamp \<Rightarrow> app_state \<Rightarrow> world \<Rightarrow> app_state \<times> world" where
  "load_state now s w =
     (case state_file w of
        Missing \<Rightarrow> (s, w)
      | Corrupt \<Rightarrow> initialize_new_state now s w
      | Holds state \<Rightarrow>
          (s\<lparr>data := (case snap_data state of None \<Rightarrow> [] | Some d \<Rightarrow> d),
             stats := (case snap_stats state of None \<Rightarrow> [] | Some st \<Rightarrow> st),
             processed_files :=
               fset_of_list (case snap_processed_files state of None \<Rightarrow> [] | Some fs \<Rightarrow> fs),
             excluded_components :=
               (case snap_excluded_components state of
                  None \<Rightarrow> default_excluded
                | Some ex \<Rightarrow> fset_of_list ex)\<rparr>,
           w))"

text \<open>Lines 351--353.\<close>

definition clear_state :: "timestamp \<Rightarrow> app_state \<Rightarrow> world \<Rightarrow> app_state \<times> world" where
  "clear_state now s w = initialize_new_state now s w"

subsection \<open>\<^verbatim>\<open>remove_excluded_components\<close> (lines 152--189)\<close>

text \<open>\<^verbatim>\<open>v not in excluded\<close> for a cell value and a set of strings.\<close>

definition not_in :: "pyval \<Rightarrow> string fset \<Rightarrow> bool" where
  "not_in v excluded = (case v of VStr c \<Rightarrow> c |\<notin>| excluded | _ \<Rightarrow> True)"

text \<open>The list comprehension of lines 164--167; \<^verbatim>\<open>record.get('Component')\<close> is
  \<^verbatim>\<open>None\<close> when the field is absent.\<close>

definition filtered_records :: "string fset \<Rightarrow> row list \<Rightarrow> row list" where
  "filtered_records excluded records =
     filter (\<lambda>r. not_in (dict_get r ''Component'' VNone) excluded) records"

text \<open>\<^verbatim>\<open>a - b\<close>: defined on integers, a \<^verbatim>\<open>TypeError\<close> otherwise.\<close>

fun py_sub :: "pyval \<Rightarrow> pyval \<Rightarrow> pyval option" where
  "py_sub (VInt a) (VInt b) = Some (VInt (a - b))"
| "py_sub _ _ = None"

text \<open>
  The body of the loop over \<^verbatim>\<open>self.data.items()\<close> (lines 159--178).
  \<^verbatim>\<open>self.stats[dataset_name]\<close> raises \<^verbatim>\<open>KeyError\<close> when the dataset has no statistics;
  the dictionary passed to \<^verbatim>\<open>update\<close> is built before anything is stored, so a
  \<^verbatim>\<open>TypeError\<close> in the subtraction leaves the state as it was.
\<close>

definition filter_dataset :: "timestamp \<Rightarrow> string \<times> row list \<Rightarrow> app_state \<Rightarrow> pyerr + app_state" where
  "filter_dataset now item s =
     (case item of (dataset_name, records) \<Rightarrow>
        (case map_of (stats s) dataset_name of
           None \<Rightarrow> Inl (KeyError dataset_name)
         | Some st \<Rightarrow>
             (let original_rows =
                    dict_get st ''original_rows'' (dict_get st ''total_rows'' (VInt 0));
                  filtered = filtered_records (excluded_components s) records;
                  filtered_rows = int (length filtered)
              in case py_sub original_rows (VInt filtered_rows) of
                   None \<Rightarrow> Inl TypeError
                 | Some removed_rows \<Rightarrow>
                     Inr (s\<lparr>stats := AList.update dataset_name
                               (dict_update st
                                  [(''filtered_rows'', VInt filtered_rows),
                                   (''removed_rows'', removed_rows),
                                   (''filtered_at'', VStr (isoformat now))])
                               (stats s),
                            data := AList.update dataset_name filtered (data s)\<rparr>))))"

text \<open>
  The loop: each dataset is visited once, in order, and an exception stops it with the
  datasets visited so far already updated.
\<close>

fun remove_loop ::
  "timestamp \<Rightarrow> (string \<times> row list) list \<Rightarrow> app_state \<Rightarrow> pyerr option \<times> app_state" where
  "remove_loop now [] s = (None, s)"
| "remove_loop now (item # rest) s =
     (case filter_dataset now item s of
        Inl e \<Rightarrow> (Some e, s)
      | Inr s1 \<Rightarrow> remove_loop now rest s1)"

definition remove_excluded_components ::
  "timestamp \<Rightarrow> app_state \<Rightarrow> world \<Rightarrow> error option \<times> app_state \<times> world" where
  "remove_excluded_components now s w =
     (case remove_loop now (data s) s of
        (Some e, s') \<Rightarrow> (Some (RemovingFailed e), s', w)
      | (None, s') \<Rightarrow> (None, s', save_state now s' w))"

subsection \<open>\<^verbatim>\<open>process_csv_files\<close> (lines 105--150) and \<^verbatim>\<open>_save_json_records\<close> (lines 215--245)\<close>

text \<open>
  What the operations take from the Python library and from the CSV files on disk:
  \<^verbatim>\<open>str(Path(file_path))\<close>, \<^verbatim>\<open>Path(file_path).stem\<close>, \<^verbatim>\<open>str.upper\<close>, and the result of
  \<^verbatim>\<open>_clean_csv_data\<close> on the file (pandas reads and cleans it; \<open>Inl\<close> is the exception it
  raises, with its message; the cells of the first column whose name contains
  \<^verbatim>\<open>date\<close> come back as \<^verbatim>\<open>Timestamp\<close> or missing). The other fields belong to the merge and reshape steps:
  \<open>year_month v\<close> is \<^verbatim>\<open>pd.to_datetime(v).strftime('%Y-%m')\<close> of a present cell, \<open>None\<close> when
  the cell does not parse as a date, and \<open>parse_int\<close> is \<^verbatim>\<open>int(s)\<close> of a string, \<open>None\<close> when
  it raises.
\<close>

record env =
  path_str :: "string \<Rightarrow> string"
  stem :: "string \<Rightarrow> string"
  upper :: "string \<Rightarrow> string"
  clean_csv_data :: "string \<Rightarrow> string + row list"
  year_month :: "pyval \<Rightarrow> string option"
  parse_int :: "string \<Rightarrow> int option"

text \<open>
  The body of the loop over \<^verbatim>\<open>file_paths\<close>, on the state and the flag
  \<^verbatim>\<open>newly_processed\<close>. A path in the registry is skipped; an exception of the cleaning
  is printed and the loop goes on.
\<close>

definition process_file :: "env \<Rightarrow> timestamp \<Rightarrow> string \<Rightarrow> app_state \<times> bool \<Rightarrow> app_state \<times> bool" where
  "process_file e now file_path sn =
     (case sn of (s, newly_processed) \<Rightarrow>
        (let path = path_str e file_path in
         if path |\<in>| processed_files s then (s, newly_processed)
         else
           (let dataset_name = upper e (stem e file_path) in
            case clean_csv_data e file_path of
              Inl msg \<Rightarrow> (s, newly_processed)
            | Inr records \<Rightarrow>
                (let total_rows = int (length records) in
                 (s\<lparr>stats := AList.update dataset_name
                       [(''total_rows'', VInt total_rows),
                        (''original_rows'', VInt total_rows),
                        (''processed_at'', VStr (isoformat now))]
                       (stats s),
                    data := AList.update dataset_name records (data s),
                    processed_files := finsert path (processed_files s)\<rparr>,
                  True)))))"

fun process_loop :: "env \<Rightarrow> timestamp \<Rightarrow> string list \<Rightarrow> app_state \<times> bool \<Rightarrow> app_state \<times> bool" where
  "process_loop e now [] sn = sn"
| "process_loop e now (file_path # rest) sn = process_loop e now rest (process_file e now file_path sn)"

text \<open>
  \<^verbatim>\<open>_save_json_records\<close>: nothing is written when there is no dataset; a failure to open
  the file or of \<^verbatim>\<open>json.dump\<close> is raised again, the latter with an incomplete artifact
  left on disk. The artifact's name carries the time stamp to the second, so a second
  export within the same second replaces the first.
\<close>

definition output_data :: "timestamp \<Rightarrow> app_state \<Rightarrow> export_artifact" where
  "output_data now s =
     \<lparr>exp_metadata =
        \<lparr>meta_processed_at = strftime now,
         meta_file_statistics = stats s,
         meta_processed_files = list_of_set (processed_files s),
         meta_excluded_components = list_of_set (excluded_components s),
         meta_column_mappings = column_mappings\<rparr>,
      exp_data = data s\<rparr>"

definition save_json_records :: "timestamp \<Rightarrow> app_state \<Rightarrow> world \<Rightarrow> error option \<times> world" where
  "save_json_records now s w =
     (if data s = [] then (None, w)
      else if \<not> writable w then (Some (SavingRecordsFailed IOError), w)
      else if json_serialisable s then
        (None, w\<lparr>exports := AList.update (strftime now) (Holds (output_data now s)) (exports w)\<rparr>)
      else
        (Some (SavingRecordsFailed TypeError),
         w\<lparr>exports := AList.update (strftime now) Corrupt (exports w)\<rparr>))"

definition process_csv_files ::
  "env \<Rightarrow> timestamp \<Rightarrow> string list \<Rightarrow> app_state \<Rightarrow> world \<Rightarrow> error option \<times> app_state \<times> world" where
  "process_csv_files e now file_paths s w =
     (case process_loop e now file_paths (s, False) of
        (s', newly_processed) \<Rightarrow>
          if newly_processed then
            (case save_json_records now s' w of
               (Some err, w') \<Rightarrow> (Some err, s', w')
             | (None, w') \<Rightarrow> (None, s', save_state now s' w'))
          else (None, s', w))"

subsection \<open>\<^verbatim>\<open>get_state_summary\<close> (lines 343--349)\<close>

text \<open>
  \<^verbatim>\<open>self.stats.get('last_updated', 'Never')\<close> looks the key up among the per-dataset
  statistics: the result is the statistics of a dataset of that name, or the string.
\<close>

record summary =
  sum_processed_files :: nat
  sum_total_records :: nat
  sum_datasets :: "string list"
  sum_last_updated :: "(string, pyval) dict + string"

definition get_state_summary :: "app_state \<Rightarrow> summary" where
  "get_state_summary s =
     \<lparr>sum_processed_files = fcard (processed_files s),
      sum_total_records = sum_list (map (\<lambda>(name, records). length records) (data s)),
      sum_datasets = map fst (data s),
      sum_last_updated =
        (case map_of (stats s) ''last_updated'' of None \<Rightarrow> Inr ''Never'' | Some st \<Rightarrow> Inl st)\<rparr>"

text \<open>
  The constructor \<^verbatim>\<open>DataProcessor(backup_file_path)\<close>: the field initialisers, then
  \<^verbatim>\<open>_load_state\<close>.
\<close>

definition new_processor :: "timestamp \<Rightarrow> world \<Rightarrow> app_state \<times> world" where
  "new_processor now w = load_state now init_fields w"


section \<open>The tables of pandas that \<^verbatim>\<open>merge_datasets\<close> and \<^verbatim>\<open>reshape_data\<close> build\<close>

text \<open>
  pandas is not part of the repository. What follows models, from its documented
  behaviour, the calls that lines 268--286 and 299--320 make. A table is its column
  labels, in order and possibly repeated, and its rows, each as long as the label list.
  A missing cell (\<^verbatim>\<open>NaN\<close>, \<^verbatim>\<open>None\<close>, \<^verbatim>\<open>NaT\<close>) is \<open>VNone\<close>.
\<close>

record frame =
  columns :: "string list"
  rows :: "pyval list list"

text \<open>The elements of a list in the order of their first occurrence.\<close>

definition first_seen :: "'a list \<Rightarrow> 'a list" where
  "first_seen xs = rev (remdups (rev xs))"

text \<open>
  \<^verbatim>\<open>pd.DataFrame(records)\<close> of a list of dictionaries: the columns are the keys in the
  order in which they first occur, and a record without a key has a missing cell there.
\<close>

definition DataFrame :: "row list \<Rightarrow> frame" where
  "DataFrame records =
     (let cols = first_seen (concat (map (map fst) records))
      in \<lparr>columns = cols,
          rows = map (\<lambda>r. map (\<lambda>c. dict_get r c VNone) cols) records\<rparr>)"

text \<open>
  \<^verbatim>\<open>df.reset_index()\<close> of a table with the default row index: a new first column with
  the row numbers, named \<^verbatim>\<open>index\<close>, or \<^verbatim>\<open>level_0\<close> when a column \<^verbatim>\<open>index\<close> exists.
\<close>

definition reset_index :: "frame \<Rightarrow> pyerr + frame" where
  "reset_index df =
     (let name = (if ''index'' \<in> set (columns df) then ''level_0'' else ''index'')
      in if name \<in> set (columns df) then Inl (ValueError ''cannot insert level_0, already exists'')
         else Inr \<lparr>columns = name # columns df,
                   rows = map (\<lambda>(i, r). VInt (int i) # r) (enumerate 0 (rows df))\<rparr>)"

text \<open>
  \<^verbatim>\<open>pd.concat([a, b], axis=1)\<close> of two tables with the default row index: row \<open>i\<close> of
  the one beside row \<open>i\<close> of the other, the shorter table padded with missing cells.
\<close>

fun concat_rows :: "nat \<Rightarrow> nat \<Rightarrow> pyval list list \<Rightarrow> pyval list list \<Rightarrow> pyval list list" where
  "concat_rows wa wb [] [] = []"
| "concat_rows wa wb (x # xs) [] = (x @ replicate wb VNone) # concat_rows wa wb xs []"
| "concat_rows wa wb [] (y # ys) = (replicate wa VNone @ y) # concat_rows wa wb [] ys"
| "concat_rows wa wb (x # xs) (y # ys) = (x @ y) # concat_rows wa wb xs ys"

definition concat_axis1 :: "frame \<Rightarrow> frame \<Rightarrow> frame" where
  "concat_axis1 a b =
     \<lparr>columns = columns a @ columns b,
      rows = concat_rows (length (columns a)) (length (columns b)) (rows a) (rows b)\<rparr>"

text \<open>
  The row of a table for one record: its field for every column, a missing cell where
  it has none. And the cell of row \<open>i\<close> in the first column labelled \<open>c\<close>.
\<close>

definition record_row :: "string list \<Rightarrow> row \<Rightarrow> pyval list" where
  "record_row cols r = map (\<lambda>c. dict_get r c VNone) cols"

definition cell :: "frame \<Rightarrow> nat \<Rightarrow> string \<Rightarrow> pyval option" where
  "cell df i c =
     (if i < length (rows df) then map_of (zip (columns df) (rows df ! i)) c else None)"

text \<open>The positions at which a label occurs among the columns.\<close>

definition positions :: "string \<Rightarrow> string list \<Rightarrow> nat list" where
  "positions c cols = filter (\<lambda>i. cols ! i = c) [0..<length cols]"

definition drop_nth :: "nat \<Rightarrow> 'a list \<Rightarrow> 'a list" where
  "drop_nth i xs = take i xs @ drop (Suc i) xs"

text \<open>
  \<^verbatim>\<open>left.merge(right, on=key, how='left')\<close>. The key must be a column of both tables,
  once in each. Every left row comes out once for each right row with an equal key, in
  the order of the right table, and once with missing cells when there is none; the
  left rows keep their order. Missing keys match each other. Not covered: columns other
  than the key that both tables have (pandas renames them), and integer keys (pandas
  compares the types of the key columns first).
\<close>

definition is_int :: "pyval \<Rightarrow> bool" where
  "is_int v = (case v of VInt n \<Rightarrow> True | _ \<Rightarrow> False)"

definition merge_left :: "string \<Rightarrow> frame \<Rightarrow> frame \<Rightarrow> pyerr + frame" where
  "merge_left key left right =
     (case positions key (columns right) of
        [] \<Rightarrow> Inl (KeyError key)
      | [kr] \<Rightarrow>
          (case positions key (columns left) of
             [] \<Rightarrow> Inl (KeyError key)
           | [kl] \<Rightarrow>
               (let rest = drop_nth kr (columns right) in
                if list_ex (\<lambda>c. c \<in> set (columns left)) rest
                then Inl (NotModelled ''columns in both tables'')
                else if list_ex (\<lambda>r. is_int (r ! kl)) (rows left) \<or>
                        list_ex (\<lambda>r. is_int (r ! kr)) (rows right)
                then Inl (NotModelled ''integer keys'')
                else Inr
                  \<lparr>columns = columns left @ rest,
                   rows = concat (map (\<lambda>l.
                       (let matches = filter (\<lambda>r. r ! kr = l ! kl) (rows right)
                        in if matches = [] then [l @ replicate (length rest) VNone]
                           else map (\<lambda>r. l @ drop_nth kr r) matches))
                     (rows left))\<rparr>)
           | _ \<Rightarrow> Inl (ValueError ''The column label is not unique''))
      | _ \<Rightarrow> Inl (ValueError ''The column label is not unique''))"

text \<open>\<^verbatim>\<open>df.iloc[:, k:]\<close>: the table without its first \<open>k\<close> columns.\<close>

definition iloc_from :: "nat \<Rightarrow> frame \<Rightarrow> frame" where
  "iloc_from k df = \<lparr>columns = drop k (columns df), rows = map (drop k) (rows df)\<rparr>"

text \<open>
  \<^verbatim>\<open>df[c]\<close> where one column is wanted: the cells of the column, a \<^verbatim>\<open>KeyError\<close> when
  there is none. With a repeated label pandas returns a table, on which the callers
  here fail.
\<close>

definition column :: "string \<Rightarrow> frame \<Rightarrow> pyerr + pyval list" where
  "column c df =
     (case positions c (columns df) of
        [] \<Rightarrow> Inl (KeyError c)
      | [i] \<Rightarrow> Inr (map (\<lambda>r. r ! i) (rows df))
      | _ \<Rightarrow> Inl (ValueError ''a table where a column is expected''))"

text \<open>
  \<^verbatim>\<open>df[c] = values\<close>: the cells of every column of that label are replaced, and a new
  last column is added when there is none.
\<close>

definition set_column :: "string \<Rightarrow> pyval list \<Rightarrow> frame \<Rightarrow> frame" where
  "set_column c vals df =
     (if c \<in> set (columns df) then
        df\<lparr>rows := map (\<lambda>(r, v). map (\<lambda>(label, x). if label = c then v else x)
                                 (zip (columns df) r))
                      (zip (rows df) vals)\<rparr>
      else \<lparr>columns = columns df @ [c], rows = map (\<lambda>(r, v). r @ [v]) (zip (rows df) vals)\<rparr>)"

text \<open>The first exception of a sequence of results, or all the values.\<close>

fun collect :: "('e + 'a) list \<Rightarrow> 'e + 'a list" where
  "collect [] = Inr []"
| "collect (Inl err # rs) = Inl err"
| "collect (Inr v # rs) = (case collect rs of Inl err \<Rightarrow> Inl err | Inr vs \<Rightarrow> Inr (v # vs))"

text \<open>Running the next step on a result, or passing the exception on.\<close>

definition and_then :: "'e + 'a \<Rightarrow> ('a \<Rightarrow> 'e + 'b) \<Rightarrow> 'e + 'b" where
  "and_then r f = (case r of Inl err \<Rightarrow> Inl err | Inr v \<Rightarrow> f v)"

text \<open>\<^verbatim>\<open>d[k]\<close> of a dictionary.\<close>

definition subscript :: "(string, 'v) dict \<Rightarrow> string \<Rightarrow> pyerr + 'v" where
  "subscript d k = (case map_of d k of None \<Rightarrow> Inl (KeyError k) | Some v \<Rightarrow> Inr v)"

section \<open>\<^verbatim>\<open>merge_datasets\<close> (lines 259--291)\<close>

text \<open>
  \<^verbatim>\<open>pd.to_datetime(v).strftime('%Y-%m')\<close> of one cell of the \<^verbatim>\<open>Date\<close> column: a missing
  date gives a missing month, a cell that is no date raises.
\<close>

definition month_cell :: "env \<Rightarrow> pyval \<Rightarrow> pyerr + pyval" where
  "month_cell e v =
     (case v of
        VNone \<Rightarrow> Inr VNone
      | _ \<Rightarrow> (case year_month e v of
                None \<Rightarrow> Inl (ValueError ''Unknown datetime string format'')
              | Some m \<Rightarrow> Inr (VStr m)))"

text \<open>
  Lines 268--288, after the check of the required datasets. \<^verbatim>\<open>iloc[:, 2:]\<close> removes
  the first two columns of the joined table: the row numbers that \<^verbatim>\<open>reset_index\<close> put
  before the activity columns, and the first activity column.
\<close>

definition merge_frames :: "env \<Rightarrow> datasets \<Rightarrow> pyerr + frame" where
  "merge_frames e d =
     and_then (subscript d ''ACTIVITY_LOG'') (\<lambda>activity.
     and_then (subscript d ''USER_LOG'') (\<lambda>user.
     and_then (subscript d ''COMPONENT_CODES'') (\<lambda>codes.
       (let activity_df = DataFrame activity;
            user_df = DataFrame user;
            component_df = DataFrame codes
        in and_then (reset_index activity_df) (\<lambda>a.
           and_then (reset_index user_df) (\<lambda>u.
           and_then (merge_left ''Component'' (concat_axis1 a u) component_df) (\<lambda>joined.
             (let merged_df = iloc_from 2 joined
              in and_then (column ''Date'' merged_df) (\<lambda>dates.
                 and_then (collect (map (month_cell e) dates)) (\<lambda>months.
                   Inr (set_column ''Month'' months merged_df)))))))))))"

text \<open>
  The whole operation. It reads the dataset map and assigns nothing to the processor,
  so the state and the files come back as they went in.
\<close>

definition merge_datasets :: "env \<Rightarrow> app_state \<Rightarrow> world \<Rightarrow> (error + frame) \<times> app_state \<times> world" where
  "merge_datasets e s w =
     (let required_datasets = {|''ACTIVITY_LOG'', ''USER_LOG''|};
          available_datasets = fset_of_list (map fst (data s))
      in if \<not> required_datasets |\<subseteq>| available_datasets then
           (Inl (MergeFailed (MissingRequiredDatasets (required_datasets |-| available_datasets))),
            s, w)
         else
           (case merge_frames e (data s) of
              Inl err \<Rightarrow> (Inl (MergeFailed err), s, w)
            | Inr merged_df \<Rightarrow> (Inr merged_df, s, w)))"

text \<open>
  The tables for which the statements about the merge are made. The three tables have
  no column label in common but \<^verbatim>\<open>Component\<close>, which the component table has and one
  of the two logs; no column is labelled \<^verbatim>\<open>index\<close> or \<^verbatim>\<open>Month\<close>; the activity log has
  a column; a column \<^verbatim>\<open>Date\<close> is left after the first activity column is gone; no
  component is an integer; and every date that is present parses.
\<close>

definition joinable :: "env \<Rightarrow> row list \<Rightarrow> row list \<Rightarrow> row list \<Rightarrow> bool" where
  "joinable e activity user codes =
     (let a = columns (DataFrame activity);
          u = columns (DataFrame user);
          rest = remove1 ''Component'' (columns (DataFrame codes))
      in a \<noteq> [] \<and> distinct (a @ u @ rest) \<and>
         ''index'' \<notin> set (a @ u @ rest) \<and> ''Month'' \<notin> set (a @ u @ rest) \<and>
         ''Component'' \<in> set (a @ u) \<and> ''Component'' \<in> set (columns (DataFrame codes)) \<and>
         ''Date'' \<in> set (tl a @ u @ rest) \<and>
         list_all (\<lambda>r. \<not> is_int (dict_get r ''Component'' VNone)) (activity @ user @ codes) \<and>
         list_all (\<lambda>r. dict_get r ''Date'' VNone = VNone \<or>
                        year_month e (dict_get r ''Date'' VNone) \<noteq> None)
           (activity @ user @ codes))"

text \<open>
  The \<^verbatim>\<open>Component\<close> of a record, and the first row of the component table with the same
  \<^verbatim>\<open>Component\<close> as a record, the empty record when there is none.
\<close>

definition component_of :: "row \<Rightarrow> pyval" where
  "component_of r = dict_get r ''Component'' VNone"

definition matching_code :: "row list \<Rightarrow> row \<Rightarrow> row" where
  "matching_code codes r =
     (case find (\<lambda>k. component_of k = component_of r) codes of None \<Rightarrow> [] | Some k \<Rightarrow> k)"

section \<open>A running example\<close>

text \<open>
  Reading one statistic, \<^verbatim>\<open>self.stats[dataset_name][key]\<close>, with \<open>None\<close> when the dataset
  or the key is absent; and the records of one dataset.
\<close>

definition stat_of :: "app_state \<Rightarrow> string \<Rightarrow> string \<Rightarrow> pyval option" where
  "stat_of s dataset_name key =
     (case map_of (stats s) dataset_name of None \<Rightarrow> None | Some st \<Rightarrow> map_of st key)"

definition records_of :: "app_state \<Rightarrow> string \<Rightarrow> row list option" where
  "records_of s dataset_name = map_of (data s) dataset_name"

text \<open>
  Three small CSV files as \<^verbatim>\<open>_clean_csv_data\<close> returns them, a clock reading, and a disk
  with no snapshot on it. The paths are already in the form \<^verbatim>\<open>str(Path(p))\<close> gives them.
  The user log has a column \<^verbatim>\<open>Date\<close>, so its dates are \<^verbatim>\<open>Timestamp\<close> cells.
\<close>

definition demo_activity :: "row list" where
  "demo_activity =
     [[(''Time'', VStr ''10:15''), (''Component'', VStr ''System''), (''Action'', VStr ''Viewed'')],
      [(''Time'', VStr ''11:30''), (''Component'', VStr ''Quiz''), (''Action'', VStr ''Attempted'')],
      [(''Time'', VStr ''09:45''), (''Component'', VStr ''Forum''), (''Action'', VStr ''Posted'')]]"

definition demo_user :: "row list" where
  "demo_user =
     [[(''Date'', VTimestamp ''2024-01-05 00:00:00''), (''User_ID'', VInt 7)],
      [(''Date'', VTimestamp ''2024-01-09 00:00:00''), (''User_ID'', VInt 7)],
      [(''Date'', VTimestamp ''2024-02-11 00:00:00''), (''User_ID'', VInt 9)]]"

definition demo_codes :: "row list" where
  "demo_codes =
     [[(''Component'', VStr ''Quiz''), (''Code'', VStr ''CategoryX'')],
      [(''Component'', VStr ''Forum''), (''Code'', VStr ''CategoryY'')]]"

text \<open>A component table in which \<^verbatim>\<open>Quiz\<close> has two codes.\<close>

definition demo_codes_twice :: "row list" where
  "demo_codes_twice =
     [[(''Component'', VStr ''Quiz''), (''Code'', VStr ''CategoryX'')],
      [(''Component'', VStr ''Quiz''), (''Code'', VStr ''CategoryZ'')],
      [(''Component'', VStr ''Forum''), (''Code'', VStr ''CategoryY'')]]"

definition demo_env :: env where
  "demo_env =
     \<lparr>path_str = (\<lambda>p. p),
      stem = (\<lambda>p. dict_get
                [(''activity_log.csv'', ''activity_log''),
                 (''user_log.csv'', ''user_log''),
                 (''component_codes.csv'', ''component_codes''),
                 (''other/component_codes.csv'', ''component_codes'')] p p),
      upper = (\<lambda>n. dict_get
                [(''activity_log'', ''ACTIVITY_LOG''),
                 (''user_log'', ''USER_LOG''),
                 (''component_codes'', ''COMPONENT_CODES'')] n n),
      clean_csv_data = (\<lambda>p. dict_get
                [(''activity_log.csv'', Inr demo_activity),
                 (''user_log.csv'', Inr demo_user),
                 (''component_codes.csv'', Inr demo_codes),
                 (''other/component_codes.csv'', Inr demo_codes_twice)] p (Inl ''No such file'')),
      year_month = (\<lambda>v. case v of VStr d \<Rightarrow> Some (take 7 d)
                                    | VTimestamp d \<Rightarrow> Some (take 7 d)
                                    | _ \<Rightarrow> None),
      parse_int = (\<lambda>n. map_of [(''7'', 7), (''9'', 9)] n)\<rparr>"

definition demo_now :: timestamp where
  "demo_now = \<lparr>isoformat = ''2024-03-01T10:00:00'', strftime = ''20240301_100000''\<rparr>"

definition demo_later :: timestamp where
  "demo_later = \<lparr>isoformat = ''2024-03-01T10:05:00'', strftime = ''20240301_100500''\<rparr>"

definition demo_disk :: world where
  "demo_disk = \<lparr>state_file = Missing, exports = [], writable = True\<rparr>"

text \<open>The activity log alone, ingested by a processor started on the empty disk.\<close>

definition demo_ingested :: "error option \<times> app_state \<times> world" where
  "demo_ingested =
     (case new_processor demo_now demo_disk of
        (s, w) \<Rightarrow> process_csv_files demo_env demo_now [''activity_log.csv''] s w)"

text \<open>The user log alone, ingested by a processor started on the empty disk.\<close>

definition demo_dated :: "error option \<times> app_state \<times> world" where
  "demo_dated =
     (case new_processor demo_now demo_disk of
        (s, w) \<Rightarrow> process_csv_files demo_env demo_now [''user_log.csv''] s w)"

text \<open>Filtering run on the ingested activity log once, and then a second time.\<close>

definition demo_filtered_once :: "error option \<times> app_state \<times> world" where
  "demo_filtered_once =
     (case demo_ingested of (err, s, w) \<Rightarrow> remove_excluded_components demo_later s w)"

definition demo_filtered_twice :: "error option \<times> app_state \<times> world" where
  "demo_filtered_twice =
     (case demo_filtered_once of (err, s, w) \<Rightarrow> remove_excluded_components demo_later s w)"

text \<open>
  A state whose only dataset has a record without a \<^verbatim>\<open>Component\<close> field, one whose
  component is excluded and one whose component is \<^verbatim>\<open>None\<close>; and the ingested state with
  another exclusion set.
\<close>

definition demo_sparse :: app_state where
  "demo_sparse =
     \<lparr>data = [(''USER_LOG'',
         [[(''Date'', VStr ''2024-01-05''), (''User_ID'', VInt 7)],
          [(''Date'', VStr ''2024-01-09''), (''Component'', VStr ''Folder'')],
          [(''Date'', VStr ''2024-02-11''), (''Component'', VNone)]])],
      excluded_components = default_excluded,
      stats = [(''USER_LOG'', [(''total_rows'', VInt 3), (''original_rows'', VInt 3),
                 (''processed_at'', VStr ''2024-03-01T10:00:00'')])],
      processed_files = {|''user_log.csv''|}\<rparr>"

definition demo_quiz_excluded :: app_state where
  "demo_quiz_excluded = (fst (snd demo_ingested))\<lparr>excluded_components := {|''Quiz''|}\<rparr>"

text \<open>
  The three files ingested, and merged; and the same with the component table in which
  \<^verbatim>\<open>Quiz\<close> has two codes.
\<close>

definition demo_loaded :: "error option \<times> app_state \<times> world" where
  "demo_loaded =
     (case new_processor demo_now demo_disk of
        (s, w) \<Rightarrow> process_csv_files demo_env demo_now
          [''activity_log.csv'', ''user_log.csv'', ''component_codes.csv''] s w)"

definition demo_merged :: "(error + frame) \<times> app_state \<times> world" where
  "demo_merged = (case demo_loaded of (err, s, w) \<Rightarrow> merge_datasets demo_env s w)"

definition demo_loaded_twice :: "error option \<times> app_state \<times> world" where
  "demo_loaded_twice =
     (case new_processor demo_now demo_disk of
        (s, w) \<Rightarrow> process_csv_files demo_env demo_now
          [''activity_log.csv'', ''user_log.csv'', ''other/component_codes.csv''] s w)"

definition demo_merged_twice :: "(error + frame) \<times> app_state \<times> world" where
  "demo_merged_twice = (case demo_loaded_twice of (err, s, w) \<Rightarrow> merge_datasets demo_env s w)"

section \<open>Filtering: \<^verbatim>\<open>remove_excluded_components\<close>\<close>

subsection \<open>The loop body and the loop\<close>

lemma dict_update_other:
  "k \<notin> fst ` set kvs \<Longrightarrow> map_of (dict_update d kvs) k = map_of d k"
  by (induction d kvs rule: dict_update.induct) (auto simp: update_conv')

lemma base_rows_cong:
  "map_of a k1 = map_of b k1 \<Longrightarrow> map_of a k2 = map_of b k2 \<Longrightarrow>
     dict_get a k1 (dict_get a k2 z) = dict_get b k1 (dict_get b k2 z)"
  by (simp add: dict_get_def)

lemma filter_dataset_InrD:
  assumes "filter_dataset now (d, recs) s = Inr s1"
  obtains st n where
    "map_of (stats s) d = Some st"
    "dict_get st ''original_rows'' (dict_get st ''total_rows'' (VInt 0)) = VInt n"
    "s1 = s\<lparr>stats := AList.update d
               (dict_update st
                  [(''filtered_rows'', VInt (int (length (filtered_records (excluded_components s) recs)))),
                   (''removed_rows'', VInt (n - int (length (filtered_records (excluded_components s) recs)))),
                   (''filtered_at'', VStr (isoformat now))])
               (stats s),
             data := AList.update d (filtered_records (excluded_components s) recs) (data s)\<rparr>"
proof -
  from assms obtain st where st: "map_of (stats s) d = Some st"
    by (auto simp: filter_dataset_def split: option.splits)
  let ?o = "dict_get st ''original_rows'' (dict_get st ''total_rows'' (VInt 0))"
  let ?f = "int (length (filtered_records (excluded_components s) recs))"
  from assms st obtain rm where rm: "py_sub ?o (VInt ?f) = Some rm"
    by (auto simp: filter_dataset_def Let_def split: option.splits)
  then obtain n where n: "?o = VInt n" "rm = VInt (n - ?f)"
    by (cases ?o) auto
  from assms st rm n have "s1 = s\<lparr>stats := AList.update d
               (dict_update st
                  [(''filtered_rows'', VInt ?f),
                   (''removed_rows'', VInt (n - ?f)),
                   (''filtered_at'', VStr (isoformat now))])
               (stats s),
             data := AList.update d (filtered_records (excluded_components s) recs) (data s)\<rparr>"
    by (auto simp: filter_dataset_def Let_def)
  with st n that show thesis by blast
qed

lemma filter_dataset_fixed:
  assumes "filter_dataset now (d, recs) s = Inr s1"
  shows "excluded_components s1 = excluded_components s" "processed_files s1 = processed_files s"
  using assms by (auto elim!: filter_dataset_InrD)

lemma filter_dataset_keys:
  assumes "filter_dataset now (d, recs) s = Inr s1" "d \<in> fst ` set (data s)"
  shows "map fst (data s1) = map fst (data s)"
proof -
  from assms(2) have "d \<in> set (map fst (data s))" by simp
  with assms(1) show ?thesis
    by (elim filter_dataset_InrD) (simp add: update_keys)
qed

lemma filter_dataset_data:
  assumes "filter_dataset now (d, recs) s = Inr s1"
  shows "map_of (data s1) d' =
     (if d' = d then Some (filtered_records (excluded_components s) recs) else map_of (data s) d')"
  using assms by (auto elim!: filter_dataset_InrD simp: update_conv')

lemma filter_dataset_stats_other:
  assumes "filter_dataset now (d, recs) s = Inr s1" "d' \<noteq> d"
  shows "map_of (stats s1) d' = map_of (stats s) d'"
  using assms by (auto elim!: filter_dataset_InrD simp: update_conv')

lemma filter_dataset_stats_same:
  assumes "filter_dataset now (d, recs) s = Inr s1"
  shows "\<exists>st st' n.
    map_of (stats s) d = Some st \<and> map_of (stats s1) d = Some st' \<and>
    dict_get st ''original_rows'' (dict_get st ''total_rows'' (VInt 0)) = VInt n \<and>
    map_of st' ''original_rows'' = map_of st ''original_rows'' \<and>
    map_of st' ''total_rows'' = map_of st ''total_rows'' \<and>
    map_of st' ''filtered_rows'' =
       Some (VInt (int (length (filtered_records (excluded_components s) recs)))) \<and>
    map_of st' ''removed_rows'' =
       Some (VInt (n - int (length (filtered_records (excluded_components s) recs)))) \<and>
    map_of st' ''filtered_at'' = Some (VStr (isoformat now))"
  using assms by (elim filter_dataset_InrD) (simp add: update_conv')

lemma remove_loop_fixed:
  "remove_loop now items s = (r, s') \<Longrightarrow>
     excluded_components s' = excluded_components s \<and> processed_files s' = processed_files s"
proof (induction items arbitrary: s)
  case Nil
  then show ?case by simp
next
  case (Cons a items)
  obtain d recs where a: "a = (d, recs)" by (cases a)
  show ?case
  proof (cases "filter_dataset now (d, recs) s")
    case (Inl e)
    with Cons.prems a show ?thesis by simp
  next
    case (Inr s1)
    with Cons.prems a have "remove_loop now items s1 = (r, s')" by simp
    from Cons.IH [OF this] filter_dataset_fixed [OF Inr] show ?thesis by simp
  qed
qed

lemma remove_loop_keys:
  "remove_loop now items s = (r, s') \<Longrightarrow> fst ` set items \<subseteq> fst ` set (data s) \<Longrightarrow>
     map fst (data s') = map fst (data s)"
proof (induction items arbitrary: s)
  case Nil
  then show ?case by simp
next
  case (Cons a items)
  obtain d recs where a: "a = (d, recs)" by (cases a)
  show ?case
  proof (cases "filter_dataset now (d, recs) s")
    case (Inl e)
    with Cons.prems a show ?thesis by simp
  next
    case (Inr s1)
    with Cons.prems a have loop: "remove_loop now items s1 = (r, s')" by simp
    from Cons.prems a have "d \<in> fst ` set (data s)" by auto
    from filter_dataset_keys [OF Inr this] have keys: "map fst (data s1) = map fst (data s)" .
    then have "fst ` set (data s1) = fst ` set (data s)" by (metis set_map)
    with Cons.prems have "fst ` set items \<subseteq> fst ` set (data s1)" by auto
    from Cons.IH [OF loop this] keys show ?thesis by simp
  qed
qed

lemma remove_loop_unvisited:
  "remove_loop now items s = (r, s') \<Longrightarrow> d \<notin> fst ` set items \<Longrightarrow>
     map_of (stats s') d = map_of (stats s) d \<and> map_of (data s') d = map_of (data s) d"
proof (induction items arbitrary: s)
  case Nil
  then show ?case by simp
next
  case (Cons a items)
  obtain d0 recs where a: "a = (d0, recs)" by (cases a)
  show ?case
  proof (cases "filter_dataset now (d0, recs) s")
    case (Inl e)
    with Cons.prems a show ?thesis by simp
  next
    case (Inr s1)
    with Cons.prems a have loop: "remove_loop now items s1 = (r, s')" by simp
    from Cons.prems a have ne: "d \<noteq> d0" and notin: "d \<notin> fst ` set items" by auto
    from Cons.IH [OF loop notin] filter_dataset_stats_other [OF Inr ne]
      filter_dataset_data [OF Inr, of d] ne
    show ?thesis by simp
  qed
qed

lemma remove_loop_original:
  "remove_loop now items s = (r, s') \<Longrightarrow> map_of (stats s) d = Some st \<Longrightarrow>
     \<exists>st'. map_of (stats s') d = Some st' \<and>
       map_of st' ''original_rows'' = map_of st ''original_rows'' \<and>
       map_of st' ''total_rows'' = map_of st ''total_rows''"
proof (induction items arbitrary: s st)
  case Nil
  then show ?case by simp
next
  case (Cons a items)
  obtain d0 recs where a: "a = (d0, recs)" by (cases a)
  show ?case
  proof (cases "filter_dataset now (d0, recs) s")
    case (Inl e)
    with Cons.prems a show ?thesis by simp
  next
    case (Inr s1)
    with Cons.prems a have loop: "remove_loop now items s1 = (r, s')" by simp
    have "\<exists>st1. map_of (stats s1) d = Some st1 \<and>
       map_of st1 ''original_rows'' = map_of st ''original_rows'' \<and>
       map_of st1 ''total_rows'' = map_of st ''total_rows''"
    proof (cases "d = d0")
      case True
      with Cons.prems(2) filter_dataset_stats_same [OF Inr] show ?thesis
        by auto
    next
      case False
      with filter_dataset_stats_other [OF Inr] Cons.prems(2) show ?thesis by simp
    qed
    then obtain st1 where st1: "map_of (stats s1) d = Some st1"
       "map_of st1 ''original_rows'' = map_of st ''original_rows''"
       "map_of st1 ''total_rows'' = map_of st ''total_rows''" by blast
    from Cons.IH [OF loop st1(1)] st1(2,3) show ?thesis by auto
  qed
qed

lemma remove_loop_visited:
  "remove_loop now items s = (None, s') \<Longrightarrow> d \<in> fst ` set items \<Longrightarrow>
     \<exists>st' f n. map_of (stats s') d = Some st' \<and>
       dict_get st' ''original_rows'' (dict_get st' ''total_rows'' (VInt 0)) = VInt n \<and>
       map_of st' ''filtered_rows'' = Some (VInt f) \<and>
       map_of st' ''removed_rows'' = Some (VInt (n - f))"
proof (induction items arbitrary: s)
  case Nil
  then show ?case by simp
next
  case (Cons a items)
  obtain d0 recs where a: "a = (d0, recs)" by (cases a)
  show ?case
  proof (cases "filter_dataset now (d0, recs) s")
    case (Inl e)
    with Cons.prems a show ?thesis by simp
  next
    case (Inr s1)
    with Cons.prems a have loop: "remove_loop now items s1 = (None, s')" by simp
    show ?thesis
    proof (cases "d \<in> fst ` set items")
      case True
      from Cons.IH [OF loop True] show ?thesis .
    next
      case False
      with Cons.prems a have d: "d = d0" by auto
      from remove_loop_unvisited [OF loop False]
      have same: "map_of (stats s') d = map_of (stats s1) d" by simp
      from filter_dataset_stats_same [OF Inr] obtain st st' n where
        "map_of (stats s1) d0 = Some st'"
        "dict_get st ''original_rows'' (dict_get st ''total_rows'' (VInt 0)) = VInt n"
        "map_of st' ''original_rows'' = map_of st ''original_rows''"
        "map_of st' ''total_rows'' = map_of st ''total_rows''"
        "map_of st' ''filtered_rows'' =
           Some (VInt (int (length (filtered_records (excluded_components s) recs))))"
        "map_of st' ''removed_rows'' =
           Some (VInt (n - int (length (filtered_records (excluded_components s) recs))))"
        by blast
      with same base_rows_cong [of st' "''original_rows''" st "''total_rows''" "VInt 0"]
      show ?thesis unfolding d by auto
    qed
  qed
qed

lemma remove_loop_data:
  "remove_loop now items s = (None, s') \<Longrightarrow> distinct (map fst items) \<Longrightarrow>
     map_of items d = Some recs \<Longrightarrow>
     map_of (data s') d = Some (filtered_records (excluded_components s) recs) \<and>
     (\<exists>st'. map_of (stats s') d = Some st' \<and> map_of st' ''filtered_rows'' =
        Some (VInt (int (length (filtered_records (excluded_components s) recs)))))"
proof (induction items arbitrary: s)
  case Nil
  then show ?case by simp
next
  case (Cons a items)
  obtain d0 recs0 where a: "a = (d0, recs0)" by (cases a)
  show ?case
  proof (cases "filter_dataset now (d0, recs0) s")
    case (Inl e)
    with Cons.prems a show ?thesis by simp
  next
    case (Inr s1)
    with Cons.prems a have loop: "remove_loop now items s1 = (None, s')" by simp
    from Cons.prems a have dist: "distinct (map fst items)" and d0: "d0 \<notin> fst ` set items"
      by auto
    show ?thesis
    proof (cases "d = d0")
      case True
      with Cons.prems a have recs: "recs = recs0" by simp
      from remove_loop_unvisited [OF loop d0]
      have "map_of (stats s') d0 = map_of (stats s1) d0" "map_of (data s') d0 = map_of (data s1) d0"
        by simp_all
      then show ?thesis unfolding True recs
        using filter_dataset_data [OF Inr, of d0] filter_dataset_stats_same [OF Inr]
        by auto
    next
      case False
      with Cons.prems a have "map_of items d = Some recs" by simp
      from Cons.IH [OF loop dist this] filter_dataset_fixed [OF Inr] show ?thesis by simp
    qed
  qed
qed

lemma remove_excluded_components_NoneD:
  assumes "remove_excluded_components now s w = (None, s', w')"
  shows "remove_loop now (data s) s = (None, s')" "w' = save_state now s' w"
  using assms
  by (auto simp: remove_excluded_components_def split: prod.splits option.splits)

lemma stat_of_eq: "map_of (stats s) d = Some st \<Longrightarrow> stat_of s d k = map_of st k"
  by (simp add: stat_of_def)

lemma filter_run_stats:
  assumes run: "remove_excluded_components now s w = (None, s', w')"
      and d: "d \<in> fst ` set (data s)"
      and orig: "stat_of s d ''original_rows'' = Some v"
  shows "\<exists>f. stat_of s' d ''filtered_rows'' = Some (VInt f) \<and>
             (\<exists>n. v = VInt n \<and> stat_of s' d ''removed_rows'' = Some (VInt (n - f))) \<and>
             stat_of s' d ''original_rows'' = Some v"
proof -
  from run have loop: "remove_loop now (data s) s = (None, s')"
    by (rule remove_excluded_components_NoneD)
  from orig obtain st where st: "map_of (stats s) d = Some st"
    and stv: "map_of st ''original_rows'' = Some v"
    by (auto simp: stat_of_def split: option.splits)
  from remove_loop_visited [OF loop d] obtain st' f n where
    st': "map_of (stats s') d = Some st'"
    and base: "dict_get st' ''original_rows'' (dict_get st' ''total_rows'' (VInt 0)) = VInt n"
    and f: "map_of st' ''filtered_rows'' = Some (VInt f)"
    and r: "map_of st' ''removed_rows'' = Some (VInt (n - f))"
    by blast
  from remove_loop_original [OF loop st] st' stv
  have keep: "map_of st' ''original_rows'' = Some v" by auto
  with base have "v = VInt n" by (simp add: dict_get_def)
  with st' f r keep show ?thesis by (auto simp: stat_of_eq)
qed

lemma filter_run_keys:
  assumes "remove_excluded_components now s w = (None, s', w')"
  shows "map fst (data s') = map fst (data s)"
  using remove_loop_keys [OF remove_excluded_components_NoneD(1) [OF assms]] by simp


subsection \<open>The running example, evaluated\<close>

lemma demo_ingested_state:
  "fst demo_ingested = None"
  "data (fst (snd demo_ingested)) = [(''ACTIVITY_LOG'', demo_activity)]"
  "stats (fst (snd demo_ingested)) = [(''ACTIVITY_LOG'', [(''total_rows'', VInt 3), (''original_rows'', VInt 3),
        (''processed_at'', VStr ''2024-03-01T10:00:00'')])]"
  "excluded_components (fst (snd demo_ingested)) = default_excluded"
  "processed_files (fst (snd demo_ingested)) = {|''activity_log.csv''|}"
  by (simp_all add: demo_ingested_def new_processor_def load_state_def demo_disk_def init_fields_def
      process_csv_files_def process_file_def demo_env_def dict_get_def demo_now_def
      save_json_records_def save_state_def demo_activity_def Let_def json_serialisable_def)

lemma demo_filtered_once_state:
  "fst demo_filtered_once = None"
  "data (fst (snd demo_filtered_once)) = [(''ACTIVITY_LOG'', tl demo_activity)]"
  "stats (fst (snd demo_filtered_once)) = [(''ACTIVITY_LOG'', [(''total_rows'', VInt 3), (''original_rows'', VInt 3),
        (''processed_at'', VStr ''2024-03-01T10:00:00''), (''filtered_rows'', VInt 2),
        (''removed_rows'', VInt 1), (''filtered_at'', VStr ''2024-03-01T10:05:00'')])]"
  "excluded_components (fst (snd demo_filtered_once)) = default_excluded"
  by (simp_all add: demo_filtered_once_def remove_excluded_components_def filter_dataset_def
      demo_ingested_state split_beta filtered_records_def dict_get_def not_in_def
      default_excluded_def demo_activity_def demo_later_def Let_def)

lemma demo_filtered_twice_state:
  "fst demo_filtered_twice = None"
  "data (fst (snd demo_filtered_twice)) = [(''ACTIVITY_LOG'', tl demo_activity)]"
  "stats (fst (snd demo_filtered_twice)) = [(''ACTIVITY_LOG'', [(''total_rows'', VInt 3), (''original_rows'', VInt 3),
        (''processed_at'', VStr ''2024-03-01T10:00:00''), (''filtered_rows'', VInt 2),
        (''removed_rows'', VInt 1), (''filtered_at'', VStr ''2024-03-01T10:05:00'')])]"
  by (simp_all add: demo_filtered_twice_def remove_excluded_components_def filter_dataset_def
      demo_filtered_once_state split_beta filtered_records_def dict_get_def not_in_def
      default_excluded_def demo_activity_def demo_later_def Let_def)

lemma demo_runs:
  "remove_excluded_components demo_later (fst (snd demo_ingested)) (snd (snd demo_ingested)) =
     (None, fst (snd demo_filtered_once), snd (snd demo_filtered_once))"
  "remove_excluded_components demo_later (fst (snd demo_filtered_once)) (snd (snd demo_filtered_once)) =
     (None, fst (snd demo_filtered_twice), snd (snd demo_filtered_twice))"
  using demo_filtered_once_state(1) demo_filtered_twice_state(1)
  by (simp_all add: demo_filtered_once_def demo_filtered_twice_def split_beta prod_eq_iff)


subsection \<open>The row counts after filtering\<close>

text \<open>
  Claim C2. After a run of \<^verbatim>\<open>remove_excluded_components\<close> that returns, every dataset of
  the dataset map whose statistics recorded \<^verbatim>\<open>original_rows\<close> before the call has
  \<^verbatim>\<open>filtered_rows + removed_rows = original_rows\<close>, with that recorded value, and the
  call leaves \<^verbatim>\<open>original_rows\<close> as it was.
\<close>

theorem filtered_plus_removed_is_original:
  assumes run: "remove_excluded_components now s w = (None, s', w')"
      and d: "d \<in> fst ` set (data s')"
      and orig: "stat_of s d ''original_rows'' = Some v"
  shows "\<exists>f r. stat_of s' d ''filtered_rows'' = Some (VInt f) \<and>
               stat_of s' d ''removed_rows'' = Some (VInt r) \<and>
               v = VInt (f + r) \<and>
               stat_of s' d ''original_rows'' = Some v"
proof -
  from filter_run_keys [OF run] have "fst ` set (data s') = fst ` set (data s)"
    by (metis set_map)
  with d have "d \<in> fst ` set (data s)" by simp
  from filter_run_stats [OF run this orig] obtain f n where
    "stat_of s' d ''filtered_rows'' = Some (VInt f)" "v = VInt n"
    "stat_of s' d ''removed_rows'' = Some (VInt (n - f))"
    "stat_of s' d ''original_rows'' = Some v"
    by blast
  moreover from \<open>v = VInt n\<close> have "v = VInt (f + (n - f))" by simp
  ultimately show ?thesis by blast
qed

theorem filtered_plus_removed_is_original_witness:
  "\<exists>f r. stat_of (fst (snd demo_filtered_once)) ''ACTIVITY_LOG'' ''filtered_rows'' = Some (VInt f) \<and>
         stat_of (fst (snd demo_filtered_once)) ''ACTIVITY_LOG'' ''removed_rows'' = Some (VInt r) \<and>
         VInt 3 = VInt (f + r) \<and>
         stat_of (fst (snd demo_filtered_once)) ''ACTIVITY_LOG'' ''original_rows'' = Some (VInt 3)"
proof -
  have d: "''ACTIVITY_LOG'' \<in> fst ` set (data (fst (snd demo_filtered_once)))"
    by (simp add: demo_filtered_once_state)
  have orig: "stat_of (fst (snd demo_ingested)) ''ACTIVITY_LOG'' ''original_rows'' = Some (VInt 3)"
    by (simp add: stat_of_def demo_ingested_state)
  show ?thesis
    using filtered_plus_removed_is_original [OF demo_runs(1) d orig] by simp
qed

text \<open>
  Claim C7 says that a second run subtracts from the row count the first run left. It
  does not: the base of the subtraction is \<^verbatim>\<open>original_rows\<close>, which no run changes. In
  the example the first run keeps 2 of 3 rows, the second keeps the same 2 and records
  \<^verbatim>\<open>removed_rows = 1\<close>, not \<open>2 - 2\<close>.
\<close>

theorem second_filter_run_counterexample:
  "fst demo_filtered_once = None \<and> fst demo_filtered_twice = None \<and>
   stat_of (fst (snd demo_ingested)) ''ACTIVITY_LOG'' ''original_rows'' = Some (VInt 3) \<and>
   stat_of (fst (snd demo_filtered_once)) ''ACTIVITY_LOG'' ''filtered_rows'' = Some (VInt 2) \<and>
   stat_of (fst (snd demo_filtered_twice)) ''ACTIVITY_LOG'' ''filtered_rows'' = Some (VInt 2) \<and>
   stat_of (fst (snd demo_filtered_twice)) ''ACTIVITY_LOG'' ''removed_rows'' = Some (VInt 1) \<and>
   stat_of (fst (snd demo_filtered_twice)) ''ACTIVITY_LOG'' ''removed_rows'' \<noteq> Some (VInt (2 - 2))"
  by (simp add: stat_of_def demo_ingested_state demo_filtered_once_state demo_filtered_twice_state)


text \<open>
  Claim C7, amended. After a second run (the exclusion set may have been changed in
  between), \<^verbatim>\<open>removed_rows\<close> is the \<^verbatim>\<open>original_rows\<close> recorded before the first run minus
  the new \<^verbatim>\<open>filtered_rows\<close>.
\<close>

theorem second_filter_run_counts_from_original:
  assumes run1: "remove_excluded_components now1 s0 w0 = (None, s1, w1)"
      and run2: "remove_excluded_components now2 (s1\<lparr>excluded_components := ex\<rparr>) w1' = (None, s2, w2)"
      and d: "d \<in> fst ` set (data s0)"
      and orig: "stat_of s0 d ''original_rows'' = Some (VInt n)"
  shows "\<exists>f2. stat_of s2 d ''filtered_rows'' = Some (VInt f2) \<and>
              stat_of s2 d ''removed_rows'' = Some (VInt (n - f2)) \<and>
              stat_of s2 d ''original_rows'' = Some (VInt n)"
proof -
  let ?s1 = "s1\<lparr>excluded_components := ex\<rparr>"
  from filter_run_stats [OF run1 d orig]
  have o1: "stat_of s1 d ''original_rows'' = Some (VInt n)" by blast
  then have o1': "stat_of ?s1 d ''original_rows'' = Some (VInt n)" by (simp add: stat_of_def)
  from filter_run_keys [OF run1] have "fst ` set (data s1) = fst ` set (data s0)"
    by (metis set_map)
  with d have d1: "d \<in> fst ` set (data ?s1)" by simp
  from filter_run_stats [OF run2 d1 o1'] show ?thesis by auto
qed

theorem second_filter_run_counts_from_original_witness:
  "\<exists>f2. stat_of (fst (snd demo_filtered_twice)) ''ACTIVITY_LOG'' ''filtered_rows'' = Some (VInt f2) \<and>
         stat_of (fst (snd demo_filtered_twice)) ''ACTIVITY_LOG'' ''removed_rows'' = Some (VInt (3 - f2)) \<and>
         stat_of (fst (snd demo_filtered_twice)) ''ACTIVITY_LOG'' ''original_rows'' = Some (VInt 3)"
proof -
  have same: "(fst (snd demo_filtered_once))\<lparr>excluded_components := default_excluded\<rparr> =
      fst (snd demo_filtered_once)"
    by (simp add: demo_filtered_once_state(4) [symmetric])
  have d: "''ACTIVITY_LOG'' \<in> fst ` set (data (fst (snd demo_ingested)))"
    by (simp add: demo_ingested_state)
  have orig: "stat_of (fst (snd demo_ingested)) ''ACTIVITY_LOG'' ''original_rows'' = Some (VInt 3)"
    by (simp add: stat_of_def demo_ingested_state)
  show ?thesis
    using second_filter_run_counts_from_original [OF demo_runs(1) _ d orig,
        of demo_later default_excluded "snd (snd demo_filtered_once)"
           "fst (snd demo_filtered_twice)" "snd (snd demo_filtered_twice)"]
      demo_runs(2) same
    by simp
qed


subsection \<open>Which records are dropped\<close>

lemma filtered_records_eq:
  "filtered_records excluded records =
     filter (\<lambda>r. \<not> (\<exists>c. map_of r ''Component'' = Some (VStr c) \<and> c |\<in>| excluded)) records"
proof -
  have "not_in (dict_get r ''Component'' VNone) excluded =
          (\<not> (\<exists>c. map_of r ''Component'' = Some (VStr c) \<and> c |\<in>| excluded))" for r
    by (auto simp: not_in_def dict_get_def split: option.splits pyval.splits)
  then show ?thesis by (simp add: filtered_records_def)
qed

lemma filter_run_records:
  assumes run: "remove_excluded_components now s w = (None, s', w')"
      and dist: "distinct (map fst (data s))"
      and recs: "records_of s d = Some records"
  shows "records_of s' d = Some (filtered_records (excluded_components s) records)"
  using remove_loop_data [OF remove_excluded_components_NoneD(1) [OF run] dist] recs
  by (simp add: records_of_def)

text \<open>
  Claim C10. In a run that returns, a record is dropped exactly when it has a
  \<^verbatim>\<open>Component\<close> field whose value is a string of the exclusion set; the kept records
  stay in order. In particular a record without the field is kept.
\<close>

theorem record_without_component_is_retained:
  assumes run: "remove_excluded_components now s w = (None, s', w')"
      and dist: "distinct (map fst (data s))"
      and recs: "records_of s d = Some records"
  shows "records_of s' d =
           Some (filter (\<lambda>r. \<not> (\<exists>c. map_of r ''Component'' = Some (VStr c) \<and>
                                     c |\<in>| excluded_components s)) records) \<and>
         (\<forall>r \<in> set records. map_of r ''Component'' = None \<longrightarrow>
            r \<in> set (the (records_of s' d)))"
  using filter_run_records [OF run dist recs] by (simp add: filtered_records_eq)

theorem record_without_component_is_retained_witness:
  "records_of (fst (snd (remove_excluded_components demo_later demo_sparse demo_disk))) ''USER_LOG'' =
     Some [[(''Date'', VStr ''2024-01-05''), (''User_ID'', VInt 7)],
           [(''Date'', VStr ''2024-02-11''), (''Component'', VNone)]] \<and>
   [(''Date'', VStr ''2024-01-05''), (''User_ID'', VInt 7)] \<in>
     set (the (records_of (fst (snd (remove_excluded_components demo_later demo_sparse demo_disk)))
       ''USER_LOG''))"
proof -
  have run: "remove_excluded_components demo_later demo_sparse demo_disk =
      (None, fst (snd (remove_excluded_components demo_later demo_sparse demo_disk)),
       snd (snd (remove_excluded_components demo_later demo_sparse demo_disk)))"
    by (simp add: remove_excluded_components_def filter_dataset_def demo_sparse_def
        dict_get_def Let_def)
  have dist: "distinct (map fst (data demo_sparse))"
    by (simp add: demo_sparse_def)
  have recs: "records_of demo_sparse ''USER_LOG'' =
      Some [[(''Date'', VStr ''2024-01-05''), (''User_ID'', VInt 7)],
            [(''Date'', VStr ''2024-01-09''), (''Component'', VStr ''Folder'')],
            [(''Date'', VStr ''2024-02-11''), (''Component'', VNone)]]"
    by (simp add: records_of_def demo_sparse_def)
  have excl: "excluded_components demo_sparse = {|''System'', ''Folder''|}"
    by (simp add: demo_sparse_def default_excluded_def)
  show ?thesis
    using record_without_component_is_retained [OF run dist recs] by (simp add: excl)
qed

section \<open>The snapshot: \<^verbatim>\<open>_save_state\<close>, \<^verbatim>\<open>_load_state\<close>, \<^verbatim>\<open>clear_state\<close>\<close>

lemma list_of_set_inverse: "fset_of_list (list_of_set A) = A"
  by (simp add: list_of_set_def)

lemma list_of_set_empty: "list_of_set {||} = []"
  by (simp add: list_of_set_def sorted_list_of_fset.rep_eq)

lemma list_of_set_single: "list_of_set {|x|} = [x]"
  by (simp add: list_of_set_def sorted_list_of_fset.rep_eq)

lemma demo_ingested_world:
  "state_file (snd (snd demo_ingested)) = Holds
      \<lparr>snap_stats = Some [(''ACTIVITY_LOG'', [(''total_rows'', VInt 3), (''original_rows'', VInt 3),
        (''processed_at'', VStr ''2024-03-01T10:00:00'')])],
      snap_processed_files = Some [''activity_log.csv''],
      snap_excluded_components = Some (list_of_set default_excluded),
      snap_last_updated = Some ''2024-03-01T10:00:00'',
      snap_data = Some [(''ACTIVITY_LOG'', demo_activity)]\<rparr>"
  "writable (snd (snd demo_ingested))"
  "map fst (exports (snd (snd demo_ingested))) = [''20240301_100000'']"
  by (simp_all add: demo_ingested_def new_processor_def load_state_def demo_disk_def init_fields_def
      process_csv_files_def process_file_def demo_env_def dict_get_def demo_now_def
      save_json_records_def save_state_def snapshot_of_def demo_activity_def Let_def
      list_of_set_single json_serialisable_def)

lemma demo_start: "new_processor demo_now demo_disk = (init_fields, demo_disk)"
  by (simp add: new_processor_def load_state_def demo_disk_def)

lemma demo_ingested_run:
  "process_csv_files demo_env demo_now [''activity_log.csv''] init_fields demo_disk =
     (None, fst (snd demo_ingested), snd (snd demo_ingested))"
  using demo_ingested_state(1) by (simp add: demo_ingested_def demo_start prod_eq_iff)


lemma demo_dated_state:
  "fst demo_dated = Some (SavingRecordsFailed TypeError)"
  "data (fst (snd demo_dated)) = [(''USER_LOG'', demo_user)]"
  "stats (fst (snd demo_dated)) = [(''USER_LOG'', [(''total_rows'', VInt 3), (''original_rows'', VInt 3),
        (''processed_at'', VStr ''2024-03-01T10:00:00'')])]"
  "excluded_components (fst (snd demo_dated)) = default_excluded"
  "processed_files (fst (snd demo_dated)) = {|''user_log.csv''|}"
  "state_file (snd (snd demo_dated)) = Missing"
  "exports (snd (snd demo_dated)) = [(''20240301_100000'', Corrupt)]"
  "writable (snd (snd demo_dated))"
  unfolding demo_dated_def demo_start
  by (simp_all add: process_csv_files_def process_file_def
      demo_env_def dict_get_def demo_now_def init_fields_def demo_disk_def
      save_json_records_def json_serialisable_def demo_user_def Let_def)

lemma save_then_load_json_state:
  assumes "writable w" "json_serialisable s"
  shows "load_state later s0 (save_state now s w) = (s, save_state now s w)"
  using assms by (simp add: load_state_def save_state_def snapshot_of_def list_of_set_inverse)

lemma save_then_load_other_state:
  assumes "writable w" "\<not> json_serialisable s"
  shows "state_file (save_state now s w) = Corrupt"
    and "fst (load_state later s0 (save_state now s w)) =
           s0\<lparr>data := [], stats := [], processed_files := {||}\<rparr>"
  using assms by (simp_all add: load_state_def save_state_def initialize_new_state_def Let_def)

text \<open>
  Claim C3. \<^verbatim>\<open>_save_state\<close> followed by \<^verbatim>\<open>_load_state\<close> gives back the saved state when
  the snapshot can be written and \<^verbatim>\<open>json.dump\<close> can write every cell
  (\<open>save_then_load_json_state\<close>). It does not for the states that ingestion itself
  builds from a file with a date column: the user log of the example is in memory with
  its three records, \<^verbatim>\<open>_save_state\<close> leaves an incomplete snapshot behind, and
  \<^verbatim>\<open>_load_state\<close> in the same processor falls back to the empty state.
\<close>

theorem save_then_load_loses_dated_state:
  "data (fst (snd demo_dated)) = [(''USER_LOG'', demo_user)] \<and>
   processed_files (fst (snd demo_dated)) = {|''user_log.csv''|} \<and>
   writable (snd (snd demo_dated)) \<and>
   state_file (save_state demo_later (fst (snd demo_dated)) (snd (snd demo_dated))) = Corrupt \<and>
   fst (load_state demo_later (fst (snd demo_dated))
          (save_state demo_later (fst (snd demo_dated)) (snd (snd demo_dated)))) =
     \<lparr>data = [], excluded_components = default_excluded, stats = [], processed_files = {||}\<rparr>"
proof -
  have bad: "\<not> json_serialisable (fst (snd demo_dated))"
    by (simp add: json_serialisable_def demo_dated_state demo_user_def)
  have "(fst (snd demo_dated))\<lparr>data := [], stats := [], processed_files := {||}\<rparr> =
      \<lparr>data = [], excluded_components = default_excluded, stats = [], processed_files = {||}\<rparr>"
    by (cases "fst (snd demo_dated)") (use demo_dated_state(4) in simp)
  with save_then_load_other_state [OF demo_dated_state(8) bad] demo_dated_state
  show ?thesis by simp
qed


text \<open>
  Claim C9 says that \<^verbatim>\<open>clear_state\<close> clears the exclusion set with the rest.
  \<^verbatim>\<open>_initialize_new_state\<close> assigns \<^verbatim>\<open>data\<close>, \<^verbatim>\<open>stats\<close> and \<^verbatim>\<open>processed_files\<close> only:
  an exclusion set \<open>{Quiz}\<close> is still \<open>{Quiz}\<close> afterwards, in memory and in the snapshot.
\<close>

theorem clear_state_counterexample:
  "excluded_components demo_quiz_excluded = {|''Quiz''|} \<and>
   excluded_components (fst (clear_state demo_later demo_quiz_excluded (snd (snd demo_ingested)))) =
     {|''Quiz''|} \<and>
   state_file (snd (clear_state demo_later demo_quiz_excluded (snd (snd demo_ingested)))) = Holds
        \<lparr>snap_stats = Some [], snap_processed_files = Some [],
         snap_excluded_components = Some [''Quiz''],
         snap_last_updated = Some ''2024-03-01T10:05:00'', snap_data = Some []\<rparr> \<and>
   {|''Quiz''|} \<noteq> ({||} :: string fset) \<and> {|''Quiz''|} \<noteq> default_excluded"
  by (simp add: demo_quiz_excluded_def clear_state_def initialize_new_state_def save_state_def
      snapshot_of_def json_serialisable_def Let_def demo_ingested_world list_of_set_empty list_of_set_single demo_later_def
      default_excluded_def)



text \<open>
  Claim C9, amended. \<^verbatim>\<open>clear_state\<close> empties the dataset map, the statistics and the
  processed-file registry, leaves the exclusion set as it is, writes no export, and
  when the snapshot can be written persists exactly that state.
\<close>

theorem clear_state_keeps_exclusion_set:
  "clear_state now s w = (s', w') \<Longrightarrow>
     data s' = [] \<and> stats s' = [] \<and> processed_files s' = {||} \<and>
     excluded_components s' = excluded_components s \<and>
     exports w' = exports w \<and>
     (writable w \<longrightarrow> state_file w' = Holds
        \<lparr>snap_stats = Some [], snap_processed_files = Some [],
         snap_excluded_components = Some (list_of_set (excluded_components s)),
         snap_last_updated = Some (isoformat now), snap_data = Some []\<rparr>)"
  by (auto simp: clear_state_def initialize_new_state_def save_state_def snapshot_of_def Let_def
      list_of_set_empty json_serialisable_def)

theorem clear_state_keeps_exclusion_set_witness:
  "data (fst (clear_state demo_later demo_quiz_excluded (snd (snd demo_ingested)))) = [] \<and>
   excluded_components (fst (clear_state demo_later demo_quiz_excluded (snd (snd demo_ingested)))) =
     excluded_components demo_quiz_excluded \<and>
   state_file (snd (clear_state demo_later demo_quiz_excluded (snd (snd demo_ingested)))) = Holds
        \<lparr>snap_stats = Some [], snap_processed_files = Some [],
         snap_excluded_components = Some (list_of_set (excluded_components demo_quiz_excluded)),
         snap_last_updated = Some (isoformat demo_later), snap_data = Some []\<rparr>"
  using clear_state_keeps_exclusion_set [of demo_later demo_quiz_excluded "snd (snd demo_ingested)"
      "fst (clear_state demo_later demo_quiz_excluded (snd (snd demo_ingested)))"
      "snd (clear_state demo_later demo_quiz_excluded (snd (snd demo_ingested)))"]
    demo_ingested_world(2)
  by simp


section \<open>Ingestion: \<^verbatim>\<open>process_csv_files\<close>\<close>

lemma process_file_skip:
  "path_str e p |\<in>| processed_files s \<Longrightarrow> process_file e now p (s, b) = (s, b)"
  by (simp add: process_file_def Let_def)

lemma process_file_fail:
  "clean_csv_data e p = Inl msg \<Longrightarrow> process_file e now p (s, b) = (s, b)"
  by (simp add: process_file_def Let_def)

lemma process_file_done:
  assumes "path_str e p |\<notin>| processed_files s" "clean_csv_data e p = Inr records"
  shows "process_file e now p (s, b) =
     (s\<lparr>stats := AList.update (upper e (stem e p))
            [(''total_rows'', VInt (int (length records))),
             (''original_rows'', VInt (int (length records))),
             (''processed_at'', VStr (isoformat now))] (stats s),
        data := AList.update (upper e (stem e p)) records (data s),
        processed_files := finsert (path_str e p) (processed_files s)\<rparr>, True)"
  using assms by (simp add: process_file_def Let_def)

lemma process_file_cases:
  obtains (unchanged) "process_file e now p (s, b) = (s, b)"
      "path_str e p |\<in>| processed_files s \<or> isl (clean_csv_data e p)"
  | (ingested) s' where "process_file e now p (s, b) = (s', True)"
      "path_str e p |\<notin>| processed_files s" "\<not> isl (clean_csv_data e p)"
      "data s' \<noteq> []" "processed_files s' = finsert (path_str e p) (processed_files s)"
proof (cases "path_str e p |\<in>| processed_files s")
  case True
  with unchanged process_file_skip show thesis by blast
next
  case False
  show thesis
  proof (cases "clean_csv_data e p")
    case (Inl msg)
    with unchanged process_file_fail show thesis by (metis sum.disc(1))
  next
    case (Inr records)
    from process_file_done [OF False Inr] False Inr show thesis
      by (intro ingested) auto
  qed
qed

lemma process_loop_invariant:
  assumes "process_loop e now ps (s, b) = (s', b')"
  shows "(b \<longrightarrow> b') \<and> ((b \<longrightarrow> data s \<noteq> []) \<longrightarrow> (b' \<longrightarrow> data s' \<noteq> [])) \<and>
         processed_files s |\<subseteq>| processed_files s' \<and>
         (\<forall>p \<in> set ps. path_str e p |\<in>| processed_files s' \<or> isl (clean_csv_data e p)) \<and>
         ((\<exists>p \<in> set ps. path_str e p |\<notin>| processed_files s \<and> \<not> isl (clean_csv_data e p)) \<longrightarrow> b')"
  using assms
proof (induction ps arbitrary: s b)
  case Nil
  then show ?case by simp
next
  case (Cons p ps)
  show ?case
  proof (cases rule: process_file_cases [of e now p s b])
    case unchanged
    with Cons.prems have "process_loop e now ps (s, b) = (s', b')" by simp
    from Cons.IH [OF this] unchanged(2) show ?thesis by auto
  next
    case (ingested s1)
    with Cons.prems have "process_loop e now ps (s1, True) = (s', b')" by simp
    from Cons.IH [OF this] ingested show ?thesis by auto
  qed
qed

lemma process_loop_all_skipped:
  assumes "\<forall>p \<in> set ps. path_str e p |\<in>| processed_files s \<or> isl (clean_csv_data e p)"
  shows "process_loop e now ps (s, b) = (s, b)"
  using assms
proof (induction ps)
  case Nil
  then show ?case by simp
next
  case (Cons p ps)
  then have "process_file e now p (s, b) = (s, b)"
    by (cases rule: process_file_cases [of e now p s b]) auto
  with Cons show ?case by simp
qed


text \<open>
  What holds of every call: a path of the registry is skipped by the loop body, state
  and flag unchanged; a call in which every path is in the registry (or fails to clean)
  returns the state and the files on disk as they were, with no snapshot and no export
  written; a call repeated with the same paths is such a call; and a call that ingests
  at least one file, on a writable disk and with nothing but cells that \<^verbatim>\<open>json.dump\<close>
  can write, writes the snapshot of the new state and an export artifact of it.
\<close>

lemma ingestion_skips_and_saves:
  "(path_str e p |\<in>| processed_files s \<longrightarrow> process_file e now p (s, b) = (s, b)) \<and>
   ((\<forall>q \<in> set ps. path_str e q |\<in>| processed_files s \<or> isl (clean_csv_data e q)) \<longrightarrow>
      process_csv_files e now ps s w = (None, s, w)) \<and>
   (process_csv_files e now ps s w = (err, s', w') \<longrightarrow>
      process_csv_files e later ps s' w' = (None, s', w')) \<and>
   (process_csv_files e now ps s w = (err, s', w') \<and> writable w \<and> json_serialisable s' \<and>
    (\<exists>q \<in> set ps. path_str e q |\<notin>| processed_files s \<and> \<not> isl (clean_csv_data e q)) \<longrightarrow>
      err = None \<and> state_file w' = Holds (snapshot_of now s') \<and>
      map_of (exports w') (strftime now) = Some (Holds (output_data now s')))"
proof (intro conjI impI)
  assume "path_str e p |\<in>| processed_files s"
  then show "process_file e now p (s, b) = (s, b)" by (rule process_file_skip)
next
  assume "\<forall>q \<in> set ps. path_str e q |\<in>| processed_files s \<or> isl (clean_csv_data e q)"
  from process_loop_all_skipped [OF this]
  show "process_csv_files e now ps s w = (None, s, w)"
    by (simp add: process_csv_files_def)
next
  assume run: "process_csv_files e now ps s w = (err, s', w')"
  obtain s1 b1 where loop: "process_loop e now ps (s, False) = (s1, b1)"
    by (cases "process_loop e now ps (s, False)")
  with run have "s' = s1"
    by (auto simp: process_csv_files_def split: if_splits prod.splits option.splits)
  with process_loop_invariant [OF loop]
  have "\<forall>q \<in> set ps. path_str e q |\<in>| processed_files s' \<or> isl (clean_csv_data e q)"
    by simp
  from process_loop_all_skipped [OF this]
  show "process_csv_files e later ps s' w' = (None, s', w')"
    by (simp add: process_csv_files_def)
next
  assume "process_csv_files e now ps s w = (err, s', w') \<and> writable w \<and> json_serialisable s' \<and>
    (\<exists>q \<in> set ps. path_str e q |\<notin>| processed_files s \<and> \<not> isl (clean_csv_data e q))"
  then have run: "process_csv_files e now ps s w = (err, s', w')" and wr: "writable w"
    and js: "json_serialisable s'"
    and ex: "\<exists>q \<in> set ps. path_str e q |\<notin>| processed_files s \<and> \<not> isl (clean_csv_data e q)"
    by blast+
  obtain s1 b1 where loop: "process_loop e now ps (s, False) = (s1, b1)"
    by (cases "process_loop e now ps (s, False)")
  from process_loop_invariant [OF loop] ex have b1: "b1" and ne: "data s1 \<noteq> []" by auto
  from run loop b1 have s1: "s' = s1"
    by (auto simp: process_csv_files_def split: prod.splits option.splits)
  from run loop b1 ne wr js s1
  have res: "err = None"
    "w' = save_state now s1
       (w\<lparr>exports := AList.update (strftime now) (Holds (output_data now s1)) (exports w)\<rparr>)"
    by (auto simp: process_csv_files_def save_json_records_def)
  with wr js s1 show "err = None" "state_file w' = Holds (snapshot_of now s')"
    "map_of (exports w') (strftime now) = Some (Holds (output_data now s'))"
    by (simp_all add: save_state_def update_conv')
qed

text \<open>
  Claim C1. The parts about skipping hold (\<open>ingestion_skips_and_saves\<close>). The last part,
  that a call which ingests a file writes the snapshot and an export, does not hold for
  a file with a date column: the user log of the example is ingested into memory and
  registered, \<^verbatim>\<open>_save_json_records\<close> raises on its \<^verbatim>\<open>Timestamp\<close> cells and leaves an
  incomplete artifact, and \<^verbatim>\<open>_save_state\<close> is not reached, so there is no snapshot.
\<close>

theorem ingestion_of_dated_file_writes_no_snapshot:
  "process_csv_files demo_env demo_now [''user_log.csv''] init_fields demo_disk = demo_dated \<and>
   path_str demo_env ''user_log.csv'' |\<notin>| processed_files init_fields \<and>
   clean_csv_data demo_env ''user_log.csv'' = Inr demo_user \<and>
   writable demo_disk \<and>
   fst demo_dated = Some (SavingRecordsFailed TypeError) \<and>
   data (fst (snd demo_dated)) = [(''USER_LOG'', demo_user)] \<and>
   processed_files (fst (snd demo_dated)) = {|''user_log.csv''|} \<and>
   state_file (snd (snd demo_dated)) = Missing \<and>
   exports (snd (snd demo_dated)) = [(''20240301_100000'', Corrupt)]"
proof -
  have "process_csv_files demo_env demo_now [''user_log.csv''] init_fields demo_disk = demo_dated"
    unfolding demo_dated_def demo_start by simp
  moreover have "path_str demo_env ''user_log.csv'' |\<notin>| processed_files init_fields"
    "clean_csv_data demo_env ''user_log.csv'' = Inr demo_user" "writable demo_disk"
    by (simp_all add: demo_env_def dict_get_def init_fields_def demo_disk_def)
  ultimately show ?thesis by (simp add: demo_dated_state)
qed


section \<open>The summary: \<^verbatim>\<open>get_state_summary\<close>\<close>

lemma summary_counts:
  "sum_processed_files (get_state_summary s) = fcard (processed_files s)"
  "sum_total_records (get_state_summary s) = (\<Sum>(name, records) \<leftarrow> data s. length records)"
  "sum_datasets (get_state_summary s) = map fst (data s)"
  by (simp_all add: get_state_summary_def)

text \<open>
  Claim C8. The counts and the names are as claimed. The last-updated value is not: the
  time stamp of a save goes into the snapshot file only, and the summary looks for a key
  \<^verbatim>\<open>last_updated\<close> among the per-dataset statistics, where nothing stores one. After
  the ingestion of the example, which saved the snapshot at 10:00:00, the summary still
  says \<^verbatim>\<open>Never\<close>.
\<close>

theorem summary_reports_never_after_save:
  "state_file (snd (snd demo_ingested)) = Holds (snapshot_of demo_now (fst (snd demo_ingested))) \<and>
   snap_last_updated (snapshot_of demo_now (fst (snd demo_ingested))) = Some ''2024-03-01T10:00:00'' \<and>
   get_state_summary (fst (snd demo_ingested)) =
     \<lparr>sum_processed_files = 1, sum_total_records = 3, sum_datasets = [''ACTIVITY_LOG''],
      sum_last_updated = Inr ''Never''\<rparr>"
  by (simp add: demo_ingested_world demo_ingested_state snapshot_of_def demo_now_def
      get_state_summary_def demo_activity_def list_of_set_single fcard_finsert_if
      json_serialisable_def)


section \<open>Merging: \<^verbatim>\<open>merge_datasets\<close>\<close>

text \<open>
  Claim C5. When \<^verbatim>\<open>ACTIVITY_LOG\<close> or \<^verbatim>\<open>USER_LOG\<close> is not in the dataset map, the merge
  fails with the error that names the missing required datasets, which are exactly
  those of the two that are absent, and the state and the files are as before the call.
\<close>

theorem merge_names_the_missing_datasets:
  assumes "''ACTIVITY_LOG'' \<notin> fst ` set (data s) \<or> ''USER_LOG'' \<notin> fst ` set (data s)"
  shows "merge_datasets e s w =
     (Inl (MergeFailed (MissingRequiredDatasets
        (ffilter (\<lambda>name. name \<notin> fst ` set (data s)) {|''ACTIVITY_LOG'', ''USER_LOG''|}))),
      s, w)"
proof -
  let ?required = "{|''ACTIVITY_LOG'', ''USER_LOG''|}"
  let ?available = "fset_of_list (map fst (data s))"
  have mem: "x |\<in>| ?available \<longleftrightarrow> x \<in> fst ` set (data s)" for x
    using fset_of_list_elem [of x "map fst (data s)"] by (simp del: fset_of_list_map)
  have "\<not> ?required |\<subseteq>| ?available"
  proof
    assume "?required |\<subseteq>| ?available"
    then have "''ACTIVITY_LOG'' |\<in>| ?available" "''USER_LOG'' |\<in>| ?available"
      by (auto simp del: fset_of_list_map)
    with assms show False unfolding mem by blast
  qed
  moreover have "?required |-| ?available =
      ffilter (\<lambda>name. name \<notin> fst ` set (data s)) ?required"
  proof (rule fset_eqI)
    fix x
    show "x |\<in>| ?required |-| ?available \<longleftrightarrow>
          x |\<in>| ffilter (\<lambda>name. name \<notin> fst ` set (data s)) ?required"
      unfolding fminus_iff ffmember_filter mem by blast
  qed
  ultimately show ?thesis
    by (simp add: merge_datasets_def Let_def del: fset_of_list_map)
qed

theorem merge_names_the_missing_datasets_witness:
  "merge_datasets demo_env (fst (snd demo_ingested)) (snd (snd demo_ingested)) =
     (Inl (MergeFailed (MissingRequiredDatasets {|''USER_LOG''|})),
      fst (snd demo_ingested), snd (snd demo_ingested))"
proof -
  have "''ACTIVITY_LOG'' \<notin> fst ` set (data (fst (snd demo_ingested))) \<or>
        ''USER_LOG'' \<notin> fst ` set (data (fst (snd demo_ingested)))"
    by (simp add: demo_ingested_state)
  moreover have "ffilter (\<lambda>name. name \<notin> fst ` set (data (fst (snd demo_ingested))))
      {|''ACTIVITY_LOG'', ''USER_LOG''|} = {|''USER_LOG''|}"
    by (rule fset_eqI) (auto simp: demo_ingested_state)
  ultimately show ?thesis
    using merge_names_the_missing_datasets [of "fst (snd demo_ingested)" demo_env
        "snd (snd demo_ingested)"]
    by simp
qed


end
